theory Spec2Isabelle
  imports Main
begin

section \<open>The page: elements, regions and the YUI Dom primitives\<close>

text \<open>
  The utility \<^verbatim>\<open>YAHOO.util.Selectable\<close> (\<^verbatim>\<open>src/selectable/selectable.js\<close>) works on
  HTML elements through the YUI library (\<^verbatim>\<open>Dom\<close>, \<^verbatim>\<open>Event\<close>, \<^verbatim>\<open>Region\<close>). The library
  is not part of the repository; this section fixes the part of it the utility calls.

  An element is represented by its id, that is by the value of
  \<^verbatim>\<open>el.id || Dom.generateId(el)\<close>; \<^verbatim>\<open>Dom.get(id)\<close> is then the identity and the
  comparison \<^verbatim>\<open>children[i] == el\<close> is equality of ids. An element is never
  \<^verbatim>\<open>null\<close> and is truthy.
\<close>

type_synonym elem = string

text \<open>\<^verbatim>\<open>YAHOO.util.Region\<close>: the four edges of an axis-aligned rectangle.\<close>

record region =
  top_edge :: int
  right_edge :: int
  bottom_edge :: int
  left_edge :: int

text \<open>
  \<^verbatim>\<open>this.contains(r)\<close> and \<^verbatim>\<open>this.intersect(r)\<close> of the library, edges inclusive;
  \<^verbatim>\<open>intersect\<close> returns the common rectangle, or \<^verbatim>\<open>null\<close> (here \<open>None\<close>).
\<close>

definition Region_contains :: "region \<Rightarrow> region \<Rightarrow> bool" where
  "Region_contains this r =
     (left_edge r \<ge> left_edge this \<and> right_edge r \<le> right_edge this \<and>
      top_edge r \<ge> top_edge this \<and> bottom_edge r \<le> bottom_edge this)"

definition Region_intersect :: "region \<Rightarrow> region \<Rightarrow> region option" where
  "Region_intersect this r =
     (let t = max (top_edge this) (top_edge r);
          ri = min (right_edge this) (right_edge r);
          b = min (bottom_edge this) (bottom_edge r);
          l = max (left_edge this) (left_edge r)
      in if b \<ge> t \<and> ri \<ge> l
         then Some \<lparr>top_edge = t, right_edge = ri, bottom_edge = b, left_edge = l\<rparr>
         else None)"

text \<open>
  What the utility reads and writes of the document: the element children of a node,
  the class names of an element, and its position and size on the page.
\<close>

record document =
  childNodes :: "elem \<Rightarrow> elem list"
  classList :: "elem \<Rightarrow> string set"
  pageXY :: "elem \<Rightarrow> int \<times> int"
  offsetWidth :: "elem \<Rightarrow> int"
  offsetHeight :: "elem \<Rightarrow> int"

definition Dom_getChildren :: "document \<Rightarrow> elem \<Rightarrow> elem list" where
  "Dom_getChildren d el = childNodes d el"

definition Dom_hasClass :: "document \<Rightarrow> elem \<Rightarrow> string \<Rightarrow> bool" where
  "Dom_hasClass d el c = (c \<in> classList d el)"

definition Dom_addClass :: "string \<Rightarrow> elem \<Rightarrow> document \<Rightarrow> document" where
  "Dom_addClass c el d = d\<lparr>classList := (classList d)(el := insert c (classList d el))\<rparr>"

definition Dom_removeClass :: "string \<Rightarrow> elem \<Rightarrow> document \<Rightarrow> document" where
  "Dom_removeClass c el d = d\<lparr>classList := (classList d)(el := classList d el - {c})\<rparr>"

text \<open>\<^verbatim>\<open>Dom.addClass\<close> and \<^verbatim>\<open>Dom.removeClass\<close> given an array work on each entry in turn.\<close>

definition Dom_addClass_all :: "string \<Rightarrow> elem list \<Rightarrow> document \<Rightarrow> document" where
  "Dom_addClass_all c els d = fold (Dom_addClass c) els d"

definition Dom_removeClass_all :: "string \<Rightarrow> elem list \<Rightarrow> document \<Rightarrow> document" where
  "Dom_removeClass_all c els d = fold (Dom_removeClass c) els d"

text \<open>
  \<^verbatim>\<open>Dom.getRegion(el)\<close>: the rectangle from the page position of the element and its
  rendered size. \<^verbatim>\<open>Dom.setXY\<close> moves the element; setting the style \<^verbatim>\<open>height\<close> or
  \<^verbatim>\<open>width\<close> to \<^verbatim>\<open>n + 'px'\<close> gives it that rendered size (an element without border
  or padding).
\<close>

definition Dom_getRegion :: "document \<Rightarrow> elem \<Rightarrow> region" where
  "Dom_getRegion d el =
     (let p = pageXY d el
      in \<lparr>top_edge = snd p, right_edge = fst p + offsetWidth d el,
          bottom_edge = snd p + offsetHeight d el, left_edge = fst p\<rparr>)"

definition Dom_setXY :: "elem \<Rightarrow> int \<times> int \<Rightarrow> document \<Rightarrow> document" where
  "Dom_setXY el p d = d\<lparr>pageXY := (pageXY d)(el := p)\<rparr>"

definition Dom_setStyle_height :: "elem \<Rightarrow> int \<Rightarrow> document \<Rightarrow> document" where
  "Dom_setStyle_height el h d = d\<lparr>offsetHeight := (offsetHeight d)(el := h)\<rparr>"

definition Dom_setStyle_width :: "elem \<Rightarrow> int \<Rightarrow> document \<Rightarrow> document" where
  "Dom_setStyle_width el w d = d\<lparr>offsetWidth := (offsetWidth d)(el := w)\<rparr>"

text \<open>
  A DOM event as the handlers read it: \<^verbatim>\<open>Event.getTarget(evt)\<close> followed by its
  successive \<^verbatim>\<open>parentNode\<close>s up to the root (empty when the event has no target), the
  two modifier keys, and \<^verbatim>\<open>Event.getXY(evt)\<close>.
\<close>

record event =
  targetPath :: "elem list"
  ctrlKey :: bool
  shiftKey :: bool
  getXY :: "int \<times> int"

section \<open>The Selectable instance\<close>

text \<open>
  The fields of one instance. \<^verbatim>\<open>element\<close> and \<^verbatim>\<open>selectClass\<close> are the attributes
  \<^verbatim>\<open>this.get('element')\<close> and \<^verbatim>\<open>this.get('selectClass')\<close>. \<^verbatim>\<open>overlayShown\<close> is
  never initialised by the source (the declared field is \<^verbatim>\<open>usingOverlay\<close>, which is
  never used), so it starts \<^verbatim>\<open>undefined\<close>, here \<open>None\<close>; \<^verbatim>\<open>initXy\<close> starts as the
  empty array, here \<open>None\<close>. \<^verbatim>\<open>slected\<close> is the property that
  \<^verbatim>\<open>deselectAll\<close> assigns; it does not exist before (\<open>None\<close>).

  \<^verbatim>\<open>selected\<close> is the array that \<^verbatim>\<open>this.selected\<close> refers to. The source declares
  the initial array on the prototype, so instances that have not yet assigned the
  property (in \<^verbatim>\<open>deselect\<close> or \<^verbatim>\<open>selectAll\<close>) push to one common array; the
  model follows the array of one instance at a time.
\<close>

record selectable =
  element :: elem
  selectClass :: string
  selected :: "elem list"
  slected :: "elem list option"
  lastSelected :: "elem option"
  overlayShown :: "bool option"
  mouseDown :: bool
  initXy :: "(int \<times> int) option"

definition getChildren :: "selectable \<Rightarrow> document \<Rightarrow> elem list" where
  "getChildren s d = Dom_getChildren d (element s)"

text \<open>\<^verbatim>\<open>isSelected\<close>, lines 458-460.\<close>

definition isSelected :: "selectable \<Rightarrow> document \<Rightarrow> elem \<Rightarrow> bool" where
  "isSelected s d el = Dom_hasClass d el (selectClass s)"

text \<open>
  \<^verbatim>\<open>select\<close>, lines 403-414, and \<^verbatim>\<open>deselect\<close>, lines 421-439. Their boolean results
  are used by no caller and are left out. The loop of \<^verbatim>\<open>deselect\<close> pops the old array
  from its end until it is empty (every entry is truthy) and pushes what differs from
  \<^verbatim>\<open>el\<close>: \<open>drain\<close> takes the old array with its last entry first.
\<close>

fun select :: "elem \<Rightarrow> selectable \<times> document \<Rightarrow> selectable \<times> document" where
  "select el (s, d) =
     (if isSelected s d el then (s, d)
      else (s\<lparr>selected := selected s @ [el], lastSelected := Some el\<rparr>,
            Dom_addClass (selectClass s) el d))"

fun drain :: "elem \<Rightarrow> elem list \<Rightarrow> elem list \<Rightarrow> elem list" where
  "drain el [] acc = acc"
| "drain el (item # els) acc = drain el els (if item \<noteq> el then acc @ [item] else acc)"

fun deselect :: "elem \<Rightarrow> selectable \<times> document \<Rightarrow> selectable \<times> document" where
  "deselect el (s, d) =
     (if \<not> isSelected s d el then (s, d)
      else (s\<lparr>selected := drain el (rev (selected s)) [], lastSelected := Some el\<rparr>,
            Dom_removeClass (selectClass s) el d))"

text \<open>\<^verbatim>\<open>selectAll\<close>, lines 466-469, and \<^verbatim>\<open>deselectAll\<close>, lines 475-478.\<close>

fun selectAll :: "selectable \<times> document \<Rightarrow> selectable \<times> document" where
  "selectAll (s, d) =
     (let s' = s\<lparr>selected := getChildren s d\<rparr>
      in (s', Dom_addClass_all (selectClass s') (selected s') d))"

fun deselectAll :: "selectable \<times> document \<Rightarrow> selectable \<times> document" where
  "deselectAll (s, d) =
     (let d' = Dom_removeClass_all (selectClass s) (selected s) d
      in (s\<lparr>slected := Some []\<rparr>, d'))"

text \<open>
  \<^verbatim>\<open>getElements\<close>, lines 325-368. An argument is a number (\<^verbatim>\<open>lang.isNumber\<close>: a
  finite number, here an integer) or an element. The inner
  function \<^verbatim>\<open>getIndex\<close> is the loop over the children, counting from \<open>i\<close>.
  \<^verbatim>\<open>Array.prototype.slice\<close> on integers: a negative bound counts from the end, and
  both bounds are clamped to the array.
\<close>

datatype endpoint = Num int | Node elem

fun getIndexFrom :: "int \<Rightarrow> elem list \<Rightarrow> elem \<Rightarrow> int" where
  "getIndexFrom i [] el = - 1"
| "getIndexFrom i (c # children) el = (if c = el then i else getIndexFrom (i + 1) children el)"

definition getIndex :: "elem list \<Rightarrow> elem \<Rightarrow> int" where
  "getIndex children el = getIndexFrom 0 children el"

definition slice :: "'a list \<Rightarrow> int \<Rightarrow> int \<Rightarrow> 'a list" where
  "slice xs start fin =
     (let len = int (length xs);
          k = (if start < 0 then max (len + start) 0 else min start len);
          final = (if fin < 0 then max (len + fin) 0 else min fin len)
      in take (nat (final - k)) (drop (nat k) xs))"

definition getElements :: "selectable \<Rightarrow> document \<Rightarrow> endpoint \<Rightarrow> endpoint \<Rightarrow> elem list" where
  "getElements s d start end =
     (let children = getChildren s d
      in case (case start of Num n \<Rightarrow> Some n
               | Node el \<Rightarrow> (let index = getIndex children el
                             in if index = - 1 then None else Some index)) of
           None \<Rightarrow> []
         | Some start' \<Rightarrow>
            (case (case end of Num n \<Rightarrow> Some n
                   | Node el \<Rightarrow> (let index = getIndex children el
                                 in if index = - 1 then None else Some index)) of
               None \<Rightarrow> []
             | Some end' \<Rightarrow>
                (if start' > end' then slice children end' (start' + 1)
                 else slice children start' (end' + 1))))"

text \<open>
  \<^verbatim>\<open>selectRange\<close>, lines 446-451: \<^verbatim>\<open>Dom.batch\<close> calls \<^verbatim>\<open>select\<close> on each element of
  the array, in order.
\<close>

fun selectRange :: "endpoint \<Rightarrow> endpoint \<Rightarrow> selectable \<times> document \<Rightarrow> selectable \<times> document" where
  "selectRange start finish (s, d) =
     (let elements = getElements s d start finish
      in fold select elements (s, d))"

text \<open>
  \<^verbatim>\<open>getTarget\<close>, lines 378-396, on the chain of the event target and its ancestors:
  no target or a target without parent gives \<^verbatim>\<open>null\<close>; otherwise the loop climbs
  while the parent exists and is not the container, and the node reached is returned
  if its parent is the container.
\<close>

fun climb :: "elem \<Rightarrow> elem list \<Rightarrow> elem option" where
  "climb container [] = None"
| "climb container [target] = None"
| "climb container (target # parent # ancestors) =
     (if parent \<noteq> container then climb container (parent # ancestors) else Some target)"

definition getTarget :: "selectable \<Rightarrow> event \<Rightarrow> elem option" where
  "getTarget s evt = climb (element s) (targetPath evt)"

text \<open>
  \<^verbatim>\<open>handleClickEvent\<close>, lines 486-515. \<^verbatim>\<open>Event.stopEvent\<close> and the focus of the
  container change nothing of the state modelled here.
\<close>

fun handleClickEvent :: "event \<Rightarrow> selectable \<times> document \<Rightarrow> selectable \<times> document" where
  "handleClickEvent evt (s, d) =
     (case getTarget s evt of
        None \<Rightarrow> (s, d)
      | Some target \<Rightarrow>
         (let (s1, d1) = (if ctrlKey evt = False then deselectAll (s, d) else (s, d))
          in if shiftKey evt = True \<and> lastSelected s1 \<noteq> None
             then selectRange (Node (the (lastSelected s1))) (Node target) (s1, d1)
             else if isSelected s1 d1 target then deselect target (s1, d1)
             else select target (s1, d1)))"

section \<open>The overlay and its cache\<close>

text \<open>
  \<^verbatim>\<open>Selectable.Overlay\<close>, lines 69-199. The object \<^verbatim>\<open>cache\<close> is a property of the
  prototype and \<^verbatim>\<open>Selectable.getOverlay\<close> hands the one static overlay to every
  instance, so there is one overlay state for the page. The cache is kept as an
  association list in the order the keys were first assigned, which is the order of
  \<^verbatim>\<open>for (id in this.cache)\<close>; \<open>assign\<close> is \<^verbatim>\<open>this.cache[id] = region\<close>.

  \<^verbatim>\<open>Selectable.instances\<close> (lines 61, 206-210) maps the id of each registered
  instance to the instance. \<^verbatim>\<open>refreshCache\<close> reads of an instance only
  \<^verbatim>\<open>getChildren()\<close>, the children of its container, so the registry is kept as the
  list of the containers of the registered instances.
\<close>

record overlay =
  overlayElement :: elem
  cache :: "(elem \<times> region) list"

type_synonym registry = "elem list"

fun assign :: "elem \<Rightarrow> region \<Rightarrow> (elem \<times> region) list \<Rightarrow> (elem \<times> region) list" where
  "assign key r [] = [(key, r)]"
| "assign key r ((k, v) # kvs) = (if k = key then (k, r) # kvs else (k, v) # assign key r kvs)"

definition cacheRegion :: "document \<Rightarrow> elem \<Rightarrow> overlay \<Rightarrow> overlay" where
  "cacheRegion d el ov =
     (let region = Dom_getRegion d el;
          key = el
      in ov\<lparr>cache := assign key region (cache ov)\<rparr>)"

definition refreshCache :: "registry \<Rightarrow> document \<Rightarrow> overlay \<Rightarrow> overlay" where
  "refreshCache instances d ov =
     fold (\<lambda>obj ov'. let children = Dom_getChildren d obj in fold (cacheRegion d) children ov')
       instances ov"

text \<open>\<^verbatim>\<open>inRegion\<close>, lines 146-156, and \<^verbatim>\<open>getContains\<close>, lines 127-138.\<close>

definition inRegion :: "region \<Rightarrow> region \<Rightarrow> bool" where
  "inRegion test selectedRegion =
     (if Region_contains selectedRegion test then True
      else if Region_intersect selectedRegion test \<noteq> None then True
      else False)"

fun collect :: "region \<Rightarrow> (elem \<times> region) list \<Rightarrow> elem list \<Rightarrow> elem list" where
  "collect region [] elements = elements"
| "collect region ((key, r) # kvs) elements =
     collect region kvs (if inRegion r region then elements @ [key] else elements)"

definition getContains :: "document \<Rightarrow> overlay \<Rightarrow> elem list" where
  "getContains d ov =
     (let region = Dom_getRegion d (overlayElement ov)
      in collect region (cache ov) [])"

text \<open>\<^verbatim>\<open>show\<close>, \<^verbatim>\<open>hide\<close>, \<^verbatim>\<open>moveTo\<close>, \<^verbatim>\<open>setHeight\<close> and \<^verbatim>\<open>setWidth\<close>, lines 162-198.\<close>

fun showOverlay :: "registry \<Rightarrow> overlay \<times> document \<Rightarrow> overlay \<times> document" where
  "showOverlay instances (ov, d) =
     (let ov' = refreshCache instances d ov
      in (ov', Dom_removeClass ''ui-hidden'' (overlayElement ov') d))"

fun hide :: "overlay \<times> document \<Rightarrow> overlay \<times> document" where
  "hide (ov, d) = (ov, Dom_addClass ''ui-hidden'' (overlayElement ov) d)"

fun moveTo :: "int \<times> int \<Rightarrow> overlay \<times> document \<Rightarrow> overlay \<times> document" where
  "moveTo xy (ov, d) = (ov, Dom_setXY (overlayElement ov) xy d)"

fun setHeight :: "int \<Rightarrow> overlay \<times> document \<Rightarrow> overlay \<times> document" where
  "setHeight height (ov, d) = (ov, Dom_setStyle_height (overlayElement ov) height d)"

fun setWidth :: "int \<Rightarrow> overlay \<times> document \<Rightarrow> overlay \<times> document" where
  "setWidth width (ov, d) = (ov, Dom_setStyle_width (overlayElement ov) width d)"

section \<open>The mouse handlers\<close>

text \<open>
  The state of the page seen from one instance: the instance, the shared overlay and
  the document. \<^verbatim>\<open>handleMouseDownEvent\<close>, lines 523-527; \<^verbatim>\<open>handleMouseUpEvent\<close>,
  lines 534-550; \<^verbatim>\<open>handleMouseMoveEvent\<close>, lines 557-584. In the last one
  \<^verbatim>\<open>this.overlayShown == false\<close> is false while the field is \<^verbatim>\<open>undefined\<close>. With
  \<^verbatim>\<open>initXy\<close> still the empty array the differences are \<^verbatim>\<open>NaN\<close>, the position and
  the sizes written are not valid and the overlay keeps its rectangle. The focus of
  the overlay element is not part of the state.
\<close>

type_synonym page = "selectable \<times> overlay \<times> document"

fun handleMouseDownEvent :: "event \<Rightarrow> page \<Rightarrow> page" where
  "handleMouseDownEvent evt (s, ov, d) =
     (s\<lparr>mouseDown := True, initXy := Some (getXY evt)\<rparr>, ov, d)"

fun handleMouseUpEvent :: "event \<Rightarrow> page \<Rightarrow> page" where
  "handleMouseUpEvent evt (s, ov, d) =
     (let s0 = s\<lparr>mouseDown := False\<rparr>
      in if overlayShown s0 = Some True
         then (let elements = getContains d ov;
                   (s1, d1) = (if \<not> ctrlKey evt then deselectAll (s0, d) else (s0, d));
                   (s2, d2) = fold select elements (s1, d1);
                   (ov3, d3) = hide (ov, d2)
               in (s2\<lparr>overlayShown := Some False\<rparr>, ov3, d3))
         else (s0, ov, d))"

fun handleMouseMoveEvent :: "registry \<Rightarrow> event \<Rightarrow> page \<Rightarrow> page" where
  "handleMouseMoveEvent instances evt (s, ov, d) =
     (if mouseDown s = False then (s, ov, d)
      else (let (ov1, d1) = (if overlayShown s = Some False then showOverlay instances (ov, d)
                             else (ov, d));
                s1 = s\<lparr>overlayShown := Some True\<rparr>;
                xy = getXY evt
            in case initXy s1 of
                 None \<Rightarrow> (s1, ov1, d1)
               | Some initXy' \<Rightarrow>
                   (let width = \<bar>fst xy - fst initXy'\<bar>;
                        height = \<bar>snd xy - snd initXy'\<bar>;
                        pos = (min (fst xy) (fst initXy'), min (snd xy) (snd initXy'));
                        (ov2, d2) = moveTo pos (ov1, d1);
                        (ov3, d3) = setHeight height (ov2, d2);
                        (ov4, d4) = setWidth width (ov3, d3)
                    in (s1, ov4, d4))))"

section \<open>Sequences of public operations\<close>

text \<open>
  The operations a host can call on an instance and the events it can deliver, run
  in order on the page. An operation of the instance leaves the overlay alone.
\<close>

datatype operation =
    Select elem
  | Deselect elem
  | SelectRange endpoint endpoint
  | SelectAll
  | DeselectAll
  | Click event
  | MouseDown event
  | MouseUp event
  | MouseMove event

fun onInstance :: "(selectable \<times> document \<Rightarrow> selectable \<times> document) \<Rightarrow> page \<Rightarrow> page" where
  "onInstance f (s, ov, d) = (let (s', d') = f (s, d) in (s', ov, d'))"

fun perform :: "registry \<Rightarrow> operation \<Rightarrow> page \<Rightarrow> page" where
  "perform instances (Select el) p = onInstance (select el) p"
| "perform instances (Deselect el) p = onInstance (deselect el) p"
| "perform instances (SelectRange a b) p = onInstance (selectRange a b) p"
| "perform instances SelectAll p = onInstance selectAll p"
| "perform instances DeselectAll p = onInstance deselectAll p"
| "perform instances (Click evt) p = onInstance (handleClickEvent evt) p"
| "perform instances (MouseDown evt) p = handleMouseDownEvent evt p"
| "perform instances (MouseUp evt) p = handleMouseUpEvent evt p"
| "perform instances (MouseMove evt) p = handleMouseMoveEvent instances evt p"

definition run :: "registry \<Rightarrow> operation list \<Rightarrow> page \<Rightarrow> page" where
  "run instances ops p = fold (perform instances) ops p"

text \<open>
  A fresh instance on container \<open>el\<close> with select class \<open>cls\<close> (the prototype values
  of lines 230-266, and \<^verbatim>\<open>Selectable.CSS_SELECTED\<close> when no class is configured), and
  a fresh overlay on an element of its own.
\<close>

definition CSS_SELECTED :: string where
  "CSS_SELECTED = ''ui-selected''"

definition newSelectable :: "elem \<Rightarrow> string \<Rightarrow> selectable" where
  "newSelectable el cls =
     \<lparr>element = el, selectClass = cls, selected = [], slected = None, lastSelected = None,
      overlayShown = None, mouseDown = False, initXy = None\<rparr>"

definition newOverlay :: "elem \<Rightarrow> overlay" where
  "newOverlay el = \<lparr>overlayElement = el, cache = []\<rparr>"

section \<open>The predicates of the specification\<close>

text \<open>
  Section 4.1 of the specification, in its words: \<open>contains outer inner\<close> holds when
  the inner rectangle lies within the outer one, \<open>intersects a b\<close> when the two
  rectangles have a common rectangle, and \<open>overlaps a b\<close> is
  \<open>contains b a \<or> intersects a b\<close>.
\<close>

definition contains :: "region \<Rightarrow> region \<Rightarrow> bool" where
  "contains outer inner = Region_contains outer inner"

definition intersects :: "region \<Rightarrow> region \<Rightarrow> bool" where
  "intersects a b = (Region_intersect a b \<noteq> None)"

definition overlaps :: "region \<Rightarrow> region \<Rightarrow> bool" where
  "overlaps a b = (contains b a \<or> intersects a b)"

text \<open>The keys of the cache: the ids that \<^verbatim>\<open>for (id in this.cache)\<close> visits.\<close>

definition cached :: "overlay \<Rightarrow> elem set" where
  "cached ov = fst ` set (cache ov)"

text \<open>The marks agree with the array when every marked element is in \<^verbatim>\<open>selected\<close>.\<close>

definition marksTracked :: "selectable \<Rightarrow> document \<Rightarrow> bool" where
  "marksTracked s d = (\<forall>el. isSelected s d el \<longrightarrow> el \<in> set (selected s))"

section \<open>A page to run examples on\<close>

text \<open>
  The container \<^verbatim>\<open>list\<close> has the five items of the examples of section 8 of the
  specification, each 10 by 10, item \<^verbatim>\<open>A\<close> at (0,0) and item \<^verbatim>\<open>B\<close> at (20,20); a
  second container \<^verbatim>\<open>other\<close> has one item \<^verbatim>\<open>X\<close>. No element has a class yet. The
  overlay element is \<^verbatim>\<open>overlay\<close>.
\<close>

definition examplePositions :: "(elem \<times> int \<times> int) list" where
  "examplePositions =
     [(''A'', (0, 0)), (''B'', (20, 20)), (''C'', (40, 40)), (''D'', (60, 60)),
      (''E'', (80, 80)), (''X'', (200, 200))]"

definition exampleDoc :: document where
  "exampleDoc =
     \<lparr>childNodes = (\<lambda>el. if el = ''list'' then [''A'', ''B'', ''C'', ''D'', ''E'']
                         else if el = ''other'' then [''X''] else []),
      classList = (\<lambda>el. {}),
      pageXY = (\<lambda>el. case map_of examplePositions el of Some p \<Rightarrow> p | None \<Rightarrow> (0, 0)),
      offsetWidth = (\<lambda>el. if el \<in> fst ` set examplePositions then 10 else 0),
      offsetHeight = (\<lambda>el. if el \<in> fst ` set examplePositions then 10 else 0)\<rparr>"

definition exampleList :: selectable where
  "exampleList = newSelectable ''list'' CSS_SELECTED"

definition exampleOther :: selectable where
  "exampleOther = newSelectable ''other'' CSS_SELECTED"

definition exampleOverlay :: overlay where
  "exampleOverlay = newOverlay ''overlay''"

definition exampleInstances :: registry where
  "exampleInstances = [''list'', ''other'']"

definition examplePage :: page where
  "examplePage = (exampleList, exampleOverlay, exampleDoc)"

text \<open>
  A click on an item of \<^verbatim>\<open>list\<close> with the given ctrl and shift keys, and a mouse event
  at a point with the given ctrl key.
\<close>

definition clickOn :: "elem \<Rightarrow> bool \<Rightarrow> bool \<Rightarrow> event" where
  "clickOn el ctrl shift =
     \<lparr>targetPath = [el, ''list'', ''body''], ctrlKey = ctrl, shiftKey = shift, getXY = (0, 0)\<rparr>"

definition mouseAt :: "int \<times> int \<Rightarrow> bool \<Rightarrow> event" where
  "mouseAt xy ctrl = \<lparr>targetPath = [''body''], ctrlKey = ctrl, shiftKey = False, getXY = xy\<rparr>"

text \<open>
  Two drags on the instance of \<^verbatim>\<open>list\<close>, up to the last move of the second one: a first
  drag away from every item, then item \<^verbatim>\<open>A\<close> selected, then the mouse pressed at
  (18,18) and moved to (35,35), a rectangle that covers item \<^verbatim>\<open>B\<close> and not item \<^verbatim>\<open>A\<close>.
\<close>

definition secondDrag :: "operation list" where
  "secondDrag =
     [MouseDown (mouseAt (100, 100) False), MouseMove (mouseAt (101, 101) False),
      MouseUp (mouseAt (101, 101) False), Select ''A'',
      MouseDown (mouseAt (18, 18) False), MouseMove (mouseAt (35, 35) False)]"

text \<open>
  Two drags away from every item, and one drag from (195,195) to (215,215), a
  rectangle over item \<^verbatim>\<open>X\<close> of the container \<^verbatim>\<open>other\<close>.
\<close>

definition dragTwice :: "operation list" where
  "dragTwice =
     [MouseDown (mouseAt (300, 300) False), MouseMove (mouseAt (301, 301) False),
      MouseUp (mouseAt (301, 301) False),
      MouseDown (mouseAt (300, 300) False), MouseMove (mouseAt (301, 301) False),
      MouseUp (mouseAt (301, 301) False)]"

definition dragOverX :: "operation list" where
  "dragOverX =
     [MouseDown (mouseAt (195, 195) False), MouseMove (mouseAt (215, 215) False),
      MouseUp (mouseAt (215, 215) False)]"

text \<open>
  The host moves an element from one parent to the end of another: the document
  after \<^verbatim>\<open>new.appendChild(el)\<close>.
\<close>

definition moveChild :: "elem \<Rightarrow> elem \<Rightarrow> elem \<Rightarrow> document \<Rightarrow> document" where
  "moveChild el old new d =
     d\<lparr>childNodes := (childNodes d)
          (old := filter (\<lambda>c. c \<noteq> el) (childNodes d old), new := childNodes d new @ [el])\<rparr>"

text \<open>
  The rectangle of the overlay as the specification writes it: x, y, width, height.
\<close>

definition overlayRect :: "page \<Rightarrow> int \<times> int \<times> int \<times> int" where
  "overlayRect p =
     (case p of (s, ov, d) \<Rightarrow>
        (fst (pageXY d (overlayElement ov)), snd (pageXY d (overlayElement ov)),
         offsetWidth d (overlayElement ov), offsetHeight d (overlayElement ov)))"

section \<open>Evaluating the model on the example page\<close>

lemmas model_defs = run_def examplePage_def exampleList_def exampleOther_def exampleOverlay_def
  exampleDoc_def exampleInstances_def examplePositions_def newSelectable_def newOverlay_def
  CSS_SELECTED_def mouseAt_def clickOn_def secondDrag_def dragTwice_def dragOverX_def
  moveChild_def Let_def getContains_def refreshCache_def cacheRegion_def inRegion_def
  Region_contains_def Region_intersect_def Dom_getRegion_def Dom_getChildren_def
  Dom_hasClass_def Dom_addClass_def Dom_removeClass_def Dom_addClass_all_def
  Dom_removeClass_all_def Dom_setXY_def Dom_setStyle_height_def Dom_setStyle_width_def
  getChildren_def isSelected_def getTarget_def getElements_def getIndex_def slice_def
  cached_def overlayRect_def

section \<open>Class marks and the array under the operations\<close>

lemma classList_fold_removeClass:
  "classList (fold (Dom_removeClass c) els d) el =
     (if el \<in> set els then classList d el - {c} else classList d el)"
  by (induction els arbitrary: d) (auto simp: Dom_removeClass_def)

lemma deselectAll_selected: "selected (fst (deselectAll p)) = selected (fst p)"
  by (cases p) (simp add: Let_def)

lemma deselectAll_isSelected:
  "isSelected (fst (deselectAll (s, d))) (snd (deselectAll (s, d))) el
     \<longleftrightarrow> isSelected s d el \<and> el \<notin> set (selected s)"
  by (auto simp: Let_def isSelected_def Dom_hasClass_def Dom_removeClass_all_def
        classList_fold_removeClass)

lemma select_isSelected:
  "isSelected (fst (select x p)) (snd (select x p)) el
     \<longleftrightarrow> isSelected (fst p) (snd p) el \<or> el = x"
  by (cases p) (auto simp: isSelected_def Dom_hasClass_def Dom_addClass_def)

lemma select_selected:
  "set (selected (fst (select x p))) =
     set (selected (fst p)) \<union> (if isSelected (fst p) (snd p) x then {} else {x})"
  by (cases p) auto

lemma fold_select_isSelected:
  "isSelected (fst (fold select els p)) (snd (fold select els p)) el
     \<longleftrightarrow> isSelected (fst p) (snd p) el \<or> el \<in> set els"
proof (induction els arbitrary: p)
  case Nil
  show ?case by simp
next
  case (Cons x xs)
  show ?case
    using Cons.IH [of "select x p"] select_isSelected [of x p el] by auto
qed

lemma fold_select_selected:
  "set (selected (fst (fold select els p))) =
     set (selected (fst p)) \<union> {x \<in> set els. \<not> isSelected (fst p) (snd p) x}"
proof (induction els arbitrary: p)
  case Nil
  show ?case by simp
next
  case (Cons x xs)
  have "set (selected (fst (fold select (x # xs) p))) =
          set (selected (fst (select x p))) \<union>
            {y \<in> set xs. \<not> isSelected (fst (select x p)) (snd (select x p)) y}"
    using Cons.IH [of "select x p"] by simp
  also have "\<dots> = set (selected (fst p)) \<union> {y \<in> set (x # xs). \<not> isSelected (fst p) (snd p) y}"
    unfolding select_selected select_isSelected by auto
  finally show ?case .
qed

lemma getIndexFrom_absent: "el \<notin> set children \<Longrightarrow> getIndexFrom i children el = - 1"
  by (induction children arbitrary: i) auto

lemma getIndexFrom_nth:
  "distinct children \<Longrightarrow> k < length children \<Longrightarrow>
     getIndexFrom i children (children ! k) = i + int k"
proof (induction children arbitrary: i k)
  case Nil
  then show ?case by simp
next
  case (Cons c cs)
  show ?case
  proof (cases k)
    case 0
    then show ?thesis by simp
  next
    case (Suc m)
    with Cons.prems have "m < length cs" "cs ! m \<noteq> c" "distinct cs" by auto
    with Cons.IH [of m "i + 1"] Suc show ?thesis by simp
  qed
qed

lemma slice_range:
  "lo \<le> hi \<Longrightarrow> hi < length xs \<Longrightarrow>
     slice xs (int lo) (int hi + 1) = map (nth xs) [lo..<Suc hi]"
proof -
  assume a: "lo \<le> hi" "hi < length xs"
  have "slice xs (int lo) (int hi + 1) = take (Suc hi - lo) (drop lo xs)"
    using a by (simp add: slice_def Let_def min_def nat_diff_distrib' Suc_diff_le nat_add_distrib)
  also have "\<dots> = map (nth xs) [lo..<Suc hi]"
    using a by (intro nth_equalityI) (auto simp del: upt_Suc)
  finally show ?thesis .
qed

section \<open>Clearing the selection\<close>

text \<open>
  Claim C1: after \<^verbatim>\<open>deselectAll()\<close> the array \<^verbatim>\<open>selected\<close> is empty and every item
  that was in it has lost its mark; \<^verbatim>\<open>selectAll()\<close> then \<^verbatim>\<open>deselectAll()\<close> leaves it
  empty. The source assigns the empty array to \<^verbatim>\<open>this.slected\<close>: on the example page,
  after \<^verbatim>\<open>selectAll()\<close> and \<^verbatim>\<open>deselectAll()\<close> the array still holds the five items,
  the property \<^verbatim>\<open>slected\<close> holds the empty array, and the mark of item \<^verbatim>\<open>A\<close> is gone.
\<close>

theorem deselectAll_keeps_array_example:
  "selected (fst (deselectAll (selectAll (exampleList, exampleDoc)))) = [''A'', ''B'', ''C'', ''D'', ''E'']
   \<and> slected (fst (deselectAll (selectAll (exampleList, exampleDoc)))) = Some []
   \<and> \<not> isSelected (fst (deselectAll (selectAll (exampleList, exampleDoc))))
          (snd (deselectAll (selectAll (exampleList, exampleDoc)))) ''A''"
  by (simp add: model_defs)

section \<open>The plain click\<close>

text \<open>
  Claim C2, as stated, fails: item \<^verbatim>\<open>A\<close> is the only selected item, and after a plain
  click on it the array \<^verbatim>\<open>selected\<close> is not empty.
\<close>

theorem plain_click_on_sole_selected_counterexample:
  "selected (fst (select ''A'' (exampleList, exampleDoc))) = [''A'']
   \<and> selected (fst (handleClickEvent (clickOn ''A'' False False)
         (select ''A'' (exampleList, exampleDoc)))) \<noteq> []"
  by (simp add: model_defs)

text \<open>
  A plain click on a resolved target clears the marks with \<^verbatim>\<open>deselectAll\<close> and then
  toggles the target by its mark.
\<close>

lemma plain_click_unfold:
  assumes "getTarget s evt = Some t" "ctrlKey evt = False" "shiftKey evt = False"
  shows "handleClickEvent evt (s, d) =
     (if isSelected s d t \<and> t \<notin> set (selected s)
      then deselect t (deselectAll (s, d)) else select t (deselectAll (s, d)))"
proof -
  obtain s1 d1 where sd: "deselectAll (s, d) = (s1, d1)" by (cases "deselectAll (s, d)")
  have "isSelected s1 d1 t \<longleftrightarrow> isSelected s d t \<and> t \<notin> set (selected s)"
    using deselectAll_isSelected [of s d t] sd by simp
  then show ?thesis using assms sd by (simp del: deselectAll.simps select.simps deselect.simps)
qed

text \<open>
  Claim C2, amended: for a plain click (neither ctrl nor shift) that resolves to an
  item, in a state where every marked item is in the array \<^verbatim>\<open>selected\<close>, afterwards
  the target carries the mark and is in the array, no other item carries the mark,
  and the target is \<^verbatim>\<open>lastSelected\<close>. This holds whether the target was selected
  before or not: a plain click on the only selected item leaves it selected.
\<close>

theorem plain_click_selects_target:
  assumes "getTarget s evt = Some t" and "ctrlKey evt = False" and "shiftKey evt = False"
    and "marksTracked s d"
  shows "isSelected (fst (handleClickEvent evt (s, d))) (snd (handleClickEvent evt (s, d))) t
       \<and> t \<in> set (selected (fst (handleClickEvent evt (s, d))))
       \<and> (\<forall>x. x \<noteq> t \<longrightarrow>
             \<not> isSelected (fst (handleClickEvent evt (s, d))) (snd (handleClickEvent evt (s, d))) x)
       \<and> lastSelected (fst (handleClickEvent evt (s, d))) = Some t"
proof -
  obtain s1 d1 where sd: "deselectAll (s, d) = (s1, d1)" by (cases "deselectAll (s, d)")
  have none: "\<not> isSelected s1 d1 x" for x
    using deselectAll_isSelected [of s d x] sd assms(4) by (auto simp: marksTracked_def)
  have tracked: "\<not> (isSelected s d t \<and> t \<notin> set (selected s))"
    using assms(4) by (auto simp: marksTracked_def)
  have "handleClickEvent evt (s, d) =
     (if isSelected s d t \<and> t \<notin> set (selected s)
      then deselect t (deselectAll (s, d)) else select t (deselectAll (s, d)))"
    by (rule plain_click_unfold [OF assms(1-3)])
  also have "\<dots> = select t (s1, d1)"
    unfolding sd by (simp only: tracked if_False)
  finally have eq: "handleClickEvent evt (s, d) = select t (s1, d1)" .
  have a: "isSelected (fst (select t (s1, d1))) (snd (select t (s1, d1))) x \<longleftrightarrow> x = t" for x
    using select_isSelected [of t "(s1, d1)" x] none by simp
  have b: "t \<in> set (selected (fst (select t (s1, d1))))"
    using select_selected [of t "(s1, d1)"] none by simp
  have c: "lastSelected (fst (select t (s1, d1))) = Some t"
    using none by simp
  show ?thesis unfolding eq using a b c by simp
qed

text \<open>The amended claim C2 at the plain click on the only selected item \<^verbatim>\<open>A\<close>.\<close>

theorem plain_click_selects_target_witness:
  "getTarget (fst (select ''A'' (exampleList, exampleDoc))) (clickOn ''A'' False False) = Some ''A''
   \<and> selected (fst (select ''A'' (exampleList, exampleDoc))) = [''A'']
   \<and> ''A'' \<in> set (selected (fst (handleClickEvent (clickOn ''A'' False False)
         (select ''A'' (exampleList, exampleDoc)))))
   \<and> lastSelected (fst (handleClickEvent (clickOn ''A'' False False)
         (select ''A'' (exampleList, exampleDoc)))) = Some ''A''"
proof -
  obtain s d where sd: "select ''A'' (exampleList, exampleDoc) = (s, d)"
    by (cases "select ''A'' (exampleList, exampleDoc)")
  have t: "getTarget s (clickOn ''A'' False False) = Some ''A''"
    using sd by (auto simp: getTarget_def clickOn_def exampleList_def newSelectable_def split: if_splits)
  have k: "ctrlKey (clickOn ''A'' False False) = False" "shiftKey (clickOn ''A'' False False) = False"
    by (simp_all add: clickOn_def)
  have m: "marksTracked s d"
    using sd by (auto simp: marksTracked_def isSelected_def Dom_hasClass_def Dom_addClass_def
        exampleDoc_def exampleList_def newSelectable_def split: if_splits)
  have sel: "selected s = [''A'']"
    using sd by (auto simp: isSelected_def Dom_hasClass_def exampleDoc_def exampleList_def
        newSelectable_def split: if_splits)
  show ?thesis
    using plain_click_selects_target [OF t k m] t sel unfolding sd by simp
qed

section \<open>Duplicates in the array\<close>

text \<open>
  Claim C3: no sequence of public operations from the initial state puts an item
  twice in the array \<^verbatim>\<open>selected\<close>. On the example page two plain clicks on item
  \<^verbatim>\<open>A\<close> leave the array with \<^verbatim>\<open>A\<close> twice: the first \<^verbatim>\<open>deselectAll\<close> of the second
  click removes the mark and keeps the entry, and \<^verbatim>\<open>select\<close> pushes the item again.
\<close>

theorem duplicate_after_two_plain_clicks:
  "selected (fst (run exampleInstances
       [Click (clickOn ''A'' False False), Click (clickOn ''A'' False False)] examplePage))
     = [''A'', ''A'']"
  by (simp add: model_defs)

section \<open>The end of a drag\<close>

text \<open>
  Claim C4: on mouse-up while dragging without the ctrl key the selection is cleared
  first, so that afterwards it is exactly the items that the rectangle overlaps.
  On the example page, at the end of the second drag the overlay is shown, the array
  holds item \<^verbatim>\<open>A\<close> and \<^verbatim>\<open>getContains()\<close> returns item \<^verbatim>\<open>B\<close> alone; after the
  mouse-up without ctrl the array holds \<^verbatim>\<open>A\<close> and \<^verbatim>\<open>B\<close>.
\<close>

theorem lasso_keeps_old_selection_example:
  "(case run exampleInstances secondDrag examplePage of (s, ov, d) \<Rightarrow>
       overlayShown s = Some True \<and> selected s = [''A''] \<and> getContains d ov = [''B''])
   \<and> (case run exampleInstances (secondDrag @ [MouseUp (mouseAt (35, 35) False)]) examplePage of
         (s, ov, d) \<Rightarrow> selected s = [''A'', ''B''])"
  by (simp add: model_defs)

section \<open>Ranges\<close>

text \<open>
  The two examples of section 8 of the specification: item \<^verbatim>\<open>B\<close> selected and a
  shift-click on \<^verbatim>\<open>D\<close>, item \<^verbatim>\<open>D\<close> selected and a shift-click on \<^verbatim>\<open>B\<close>.
\<close>

lemma range_forward_example:
  "set (selected (fst (handleClickEvent (clickOn ''D'' False True)
        (select ''B'' (exampleList, exampleDoc))))) = {''B'', ''C'', ''D''}"
  by (auto simp: model_defs)

lemma range_backward_example:
  "set (selected (fst (handleClickEvent (clickOn ''B'' False True)
        (select ''D'' (exampleList, exampleDoc))))) = {''B'', ''C'', ''D''}"
  by (auto simp: model_defs)

lemma getIndex_nth:
  "distinct children \<Longrightarrow> k < length children \<Longrightarrow> getIndex children (children ! k) = int k"
  by (simp add: getIndex_def getIndexFrom_nth)

lemma getElements_resolved:
  assumes "distinct (getChildren s d)" "i < length (getChildren s d)" "j < length (getChildren s d)"
    and "a = Node (getChildren s d ! i) \<or> a = Num (int i)"
    and "b = Node (getChildren s d ! j) \<or> b = Num (int j)"
  shows "getElements s d a b = map (nth (getChildren s d)) [min i j..<Suc (max i j)]"
proof (cases "i \<le> j")
  case True
  then show ?thesis
    using assms slice_range [of i j "getChildren s d"]
    by (auto simp: getElements_def getIndex_nth Let_def min_def max_def)
next
  case False
  then show ?thesis
    using assms slice_range [of j i "getChildren s d"]
    by (auto simp: getElements_def getIndex_nth Let_def min_def max_def)
qed

text \<open>
  Claim C5: \<^verbatim>\<open>selectRange\<close> is inclusive of both endpoints and normalises their order.
  For endpoints that resolve to the indices \<open>i\<close> and \<open>j\<close> of two children of the
  container (each given as the child itself or as its index), \<^verbatim>\<open>getElements\<close>
  returns the children at the indices from \<open>min i j\<close> to \<open>max i j\<close>, both included, in
  document order; after \<^verbatim>\<open>selectRange\<close> the marked items are those marked before and
  those of the range, and the array has gained exactly the items of the range that
  were not marked. On the items \<^verbatim>\<open>A\<close> to \<^verbatim>\<open>E\<close>, anchor \<^verbatim>\<open>B\<close> and a shift-click on
  \<^verbatim>\<open>D\<close>, and anchor \<^verbatim>\<open>D\<close> and a shift-click on \<^verbatim>\<open>B\<close>, both give the set of
  \<^verbatim>\<open>B\<close>, \<^verbatim>\<open>C\<close> and \<^verbatim>\<open>D\<close> as the entries of the array.
\<close>

theorem selectRange_inclusive:
  assumes "distinct (getChildren s d)"
    and "i < length (getChildren s d)" and "j < length (getChildren s d)"
    and "a = Node (getChildren s d ! i) \<or> a = Num (int i)"
    and "b = Node (getChildren s d ! j) \<or> b = Num (int j)"
  shows "getElements s d a b = map (nth (getChildren s d)) [min i j..<Suc (max i j)]
       \<and> (\<forall>el. isSelected (fst (selectRange a b (s, d))) (snd (selectRange a b (s, d))) el
             \<longleftrightarrow> isSelected s d el \<or> (\<exists>k. min i j \<le> k \<and> k \<le> max i j \<and> el = getChildren s d ! k))
       \<and> set (selected (fst (selectRange a b (s, d)))) =
           set (selected s) \<union>
           {el. (\<exists>k. min i j \<le> k \<and> k \<le> max i j \<and> el = getChildren s d ! k) \<and> \<not> isSelected s d el}
       \<and> set (selected (fst (handleClickEvent (clickOn ''D'' False True)
             (select ''B'' (exampleList, exampleDoc))))) = {''B'', ''C'', ''D''}
       \<and> set (selected (fst (handleClickEvent (clickOn ''B'' False True)
             (select ''D'' (exampleList, exampleDoc))))) = {''B'', ''C'', ''D''}"
proof -
  let ?els = "getElements s d a b"
  have els: "?els = map (nth (getChildren s d)) [min i j..<Suc (max i j)]"
    by (rule getElements_resolved [OF assms])
  have mem: "el \<in> set ?els \<longleftrightarrow> (\<exists>k. min i j \<le> k \<and> k \<le> max i j \<and> el = getChildren s d ! k)" for el
    unfolding els by (auto simp del: upt_Suc simp: less_Suc_eq_le)
  have sr: "selectRange a b (s, d) = fold select ?els (s, d)"
    by (simp add: Let_def)
  have marks: "\<forall>el. isSelected (fst (fold select ?els (s, d))) (snd (fold select ?els (s, d))) el
             \<longleftrightarrow> isSelected s d el \<or> (\<exists>k. min i j \<le> k \<and> k \<le> max i j \<and> el = getChildren s d ! k)"
    using fold_select_isSelected [of ?els "(s, d)"] mem by simp
  have arr: "set (selected (fst (fold select ?els (s, d)))) =
           set (selected s) \<union>
           {el. (\<exists>k. min i j \<le> k \<and> k \<le> max i j \<and> el = getChildren s d ! k) \<and> \<not> isSelected s d el}"
    using fold_select_selected [of ?els "(s, d)"] mem by auto
  show ?thesis
    unfolding sr using els marks arr range_forward_example range_backward_example by blast
qed

text \<open>
  Claim C5 at the children \<^verbatim>\<open>D\<close> (index 3) and \<^verbatim>\<open>B\<close> (index 1) of the example page,
  the first given as an element and the second as a number.
\<close>

theorem selectRange_inclusive_witness:
  "distinct (getChildren exampleList exampleDoc)
   \<and> getElements exampleList exampleDoc (Node ''D'') (Num 1) = [''B'', ''C'', ''D'']
   \<and> set (selected (fst (selectRange (Node ''D'') (Num 1) (exampleList, exampleDoc)))) =
        {''B'', ''C'', ''D''}"
proof -
  have c: "getChildren exampleList exampleDoc = [''A'', ''B'', ''C'', ''D'', ''E'']"
    by (simp add: model_defs)
  have h: "distinct (getChildren exampleList exampleDoc)"
    "3 < length (getChildren exampleList exampleDoc)" "1 < length (getChildren exampleList exampleDoc)"
    unfolding c by simp_all
  have n: "Node ''D'' = Node (getChildren exampleList exampleDoc ! 3) \<or> Node ''D'' = Num (int 3)"
    "Num 1 = Node (getChildren exampleList exampleDoc ! 1) \<or> Num 1 = Num (int 1)"
    unfolding c by simp_all
  have r: "map (nth (getChildren exampleList exampleDoc)) [min 3 1..<Suc (max 3 1)] = [''B'', ''C'', ''D'']"
    unfolding c by (simp add: upt_rec)
  have e: "getElements exampleList exampleDoc (Node ''D'') (Num 1) = [''B'', ''C'', ''D'']"
    using selectRange_inclusive [OF h n, THEN conjunct1] unfolding r .
  have f: "selected (fst (fold select [''B'', ''C'', ''D''] (exampleList, exampleDoc))) =
             [''B'', ''C'', ''D'']"
    by (simp add: model_defs)
  have g: "set (selected (fst (selectRange (Node ''D'') (Num 1) (exampleList, exampleDoc)))) =
        {''B'', ''C'', ''D''}"
    unfolding selectRange.simps Let_def e f by simp
  show ?thesis
    by (intro conjI h(1) e g)
qed

text \<open>
  Claim C6, as stated, fails: a number that is no index of a child is not rejected.
  The container has five children and nothing is selected; with the endpoints 1
  and 100 the call selects the four items from \<^verbatim>\<open>B\<close> on, and with the endpoints \<^verbatim>\<open>E\<close>
  and -1 it selects item \<^verbatim>\<open>E\<close>.
\<close>

theorem selectRange_number_out_of_range_counterexample:
  "length (getChildren exampleList exampleDoc) = 5
   \<and> selected exampleList = []
   \<and> selected (fst (selectRange (Num 1) (Num 100) (exampleList, exampleDoc))) =
        [''B'', ''C'', ''D'', ''E'']
   \<and> selected (fst (selectRange (Node ''E'') (Num (- 1)) (exampleList, exampleDoc))) = [''E'']"
  by (simp add: model_defs)

text \<open>
  Claim C6, amended: when an endpoint of \<^verbatim>\<open>selectRange\<close> is an element that is not
  among the children of the container, \<^verbatim>\<open>getElements\<close> returns the empty array and
  the call changes nothing, neither the instance nor the document, whatever the
  other endpoint is. An endpoint given as a number is used as it is, without a test
  against the children.
\<close>

theorem selectRange_unresolved_noop:
  assumes "(\<exists>el. a = Node el \<and> el \<notin> set (getChildren s d))
         \<or> (\<exists>el. b = Node el \<and> el \<notin> set (getChildren s d))"
  shows "getElements s d a b = [] \<and> selectRange a b (s, d) = (s, d)"
proof -
  have "getElements s d a b = []"
    using assms
    by (auto simp: getElements_def getIndex_def getIndexFrom_absent Let_def
          split: endpoint.splits option.splits)
  then show ?thesis by simp
qed

text \<open>
  The amended claim C6 with the element \<^verbatim>\<open>Z\<close>, which is no child of \<^verbatim>\<open>list\<close>, as
  either endpoint.
\<close>

theorem selectRange_unresolved_noop_witness:
  "''Z'' \<notin> set (getChildren exampleList exampleDoc)
   \<and> selectRange (Node ''B'') (Node ''Z'') (exampleList, exampleDoc) = (exampleList, exampleDoc)
   \<and> selectRange (Node ''Z'') (Num 3) (exampleList, exampleDoc) = (exampleList, exampleDoc)"
proof -
  have z: "''Z'' \<notin> set (getChildren exampleList exampleDoc)"
    by (simp add: model_defs)
  show ?thesis
    using z selectRange_unresolved_noop [of "Node ''B''" exampleList exampleDoc "Node ''Z''"]
      selectRange_unresolved_noop [of "Node ''Z''" exampleList exampleDoc "Num 3"]
    by simp
qed

section \<open>Membership in the lasso\<close>

lemma Region_intersect_sym:
  "(Region_intersect a b = None) = (Region_intersect b a = None)"
  by (simp add: Region_intersect_def Let_def max.commute min.commute)

lemma inRegion_iff:
  "inRegion test selectedRegion \<longleftrightarrow>
     Region_contains selectedRegion test \<or> Region_intersect selectedRegion test \<noteq> None"
  by (simp add: inRegion_def)

lemma collect_filter:
  "collect region kvs elements =
     elements @ map fst (filter (\<lambda>kv. inRegion (snd kv) region) kvs)"
  by (induction kvs arbitrary: elements) auto

lemma getContains_iff:
  "el \<in> set (getContains d ov) \<longleftrightarrow>
     (\<exists>r. (el, r) \<in> set (cache ov) \<and> inRegion r (Dom_getRegion d (overlayElement ov)))"
  by (force simp: getContains_def collect_filter Let_def)

text \<open>
  The example of section 8 of the specification: with item \<^verbatim>\<open>A\<close> at [0,0,10,10] and
  item \<^verbatim>\<open>B\<close> at [20,20,10,10] in the cache, an overlay of [0,0,15,15] contains \<^verbatim>\<open>A\<close>
  and one of [0,0,35,35] contains \<^verbatim>\<open>A\<close> and \<^verbatim>\<open>B\<close>.
\<close>

lemma lasso_containment_example:
  "getContains (Dom_setStyle_width ''overlay'' 15 (Dom_setStyle_height ''overlay'' 15 exampleDoc))
     (refreshCache exampleInstances exampleDoc exampleOverlay) = [''A'']
   \<and> getContains (Dom_setStyle_width ''overlay'' 35 (Dom_setStyle_height ''overlay'' 35 exampleDoc))
     (refreshCache exampleInstances exampleDoc exampleOverlay) = [''A'', ''B'']"
  by (simp add: model_defs)

text \<open>
  Claim C7: the test for membership in the lasso is
  \<open>overlaps a b = (contains b a \<or> intersects a b)\<close> with \<open>a\<close> the cached region of
  an item and \<open>b\<close> the rectangle of the overlay: \<^verbatim>\<open>inRegion\<close> holds exactly when
  the rectangle of the overlay contains the region or the two have a common
  rectangle, and an element is returned by \<^verbatim>\<open>getContains()\<close> exactly when the cache
  holds a region for it that the rectangle of the overlay overlaps.
\<close>

theorem inRegion_is_overlaps:
  "inRegion test selectedRegion = overlaps test selectedRegion
   \<and> inRegion test selectedRegion =
       (Region_contains selectedRegion test \<or> Region_intersect selectedRegion test \<noteq> None)
   \<and> (el \<in> set (getContains d ov) \<longleftrightarrow>
        (\<exists>r. (el, r) \<in> set (cache ov) \<and> overlaps r (Dom_getRegion d (overlayElement ov))))"
proof -
  have a: "inRegion t r = overlaps t r" for t r
    using Region_intersect_sym [of r t]
    by (auto simp: inRegion_iff overlaps_def contains_def intersects_def)
  show ?thesis
    using a inRegion_iff [of test selectedRegion] getContains_iff [of el d ov] by simp
qed

section \<open>The rectangle of a drag\<close>

lemma overlayElement_fold_cacheRegion [simp]:
  "overlayElement (fold (cacheRegion d) els ov) = overlayElement ov"
  by (induction els arbitrary: ov) (auto simp: cacheRegion_def Let_def)

lemma overlayElement_refreshCache [simp]:
  "overlayElement (refreshCache instances d ov) = overlayElement ov"
  unfolding refreshCache_def by (induction instances arbitrary: ov) (auto simp: Let_def)

lemma drag_rect:
  "overlayRect (handleMouseMoveEvent instances move (handleMouseDownEvent down (s, ov, d))) =
     (min (fst (getXY move)) (fst (getXY down)), min (snd (getXY move)) (snd (getXY down)),
      \<bar>fst (getXY move) - fst (getXY down)\<bar>, \<bar>snd (getXY move) - snd (getXY down)\<bar>)"
  by (simp add: overlayRect_def Let_def Dom_setXY_def Dom_setStyle_height_def
        Dom_setStyle_width_def Dom_removeClass_def)

text \<open>
  Claim C8: after the mouse went down at a point and moved to another, the overlay
  has the smaller of the two x as left, the smaller of the two y as top, and the
  absolute differences as width and height; exchanging the two points gives the same
  rectangle, and a drag from (50,50) to (10,10), like one from (10,10) to (50,50),
  gives the rectangle [10,10,40,40].
\<close>

theorem drag_rectangle_normalized:
  "overlayRect (handleMouseMoveEvent instances move (handleMouseDownEvent down (s, ov, d))) =
     (min (fst (getXY move)) (fst (getXY down)), min (snd (getXY move)) (snd (getXY down)),
      \<bar>fst (getXY move) - fst (getXY down)\<bar>, \<bar>snd (getXY move) - snd (getXY down)\<bar>)
   \<and> overlayRect (handleMouseMoveEvent instances (mouseAt q c) (handleMouseDownEvent (mouseAt p c') (s, ov, d))) =
     overlayRect (handleMouseMoveEvent instances (mouseAt p c) (handleMouseDownEvent (mouseAt q c') (s, ov, d)))
   \<and> overlayRect (handleMouseMoveEvent instances (mouseAt (10, 10) False)
        (handleMouseDownEvent (mouseAt (50, 50) False) (s, ov, d))) = (10, 10, 40, 40)
   \<and> overlayRect (handleMouseMoveEvent instances (mouseAt (50, 50) False)
        (handleMouseDownEvent (mouseAt (10, 10) False) (s, ov, d))) = (10, 10, 40, 40)"
  unfolding drag_rect by (simp add: mouseAt_def min.commute abs_minus_commute)

section \<open>The selection test\<close>

text \<open>
  Claim C9: \<^verbatim>\<open>isSelected\<close> tests the class of the element and nothing else: it
  does not depend on the array \<^verbatim>\<open>selected\<close>. The two can disagree after public
  operations: after \<^verbatim>\<open>select(A)\<close> and \<^verbatim>\<open>deselectAll()\<close> item \<^verbatim>\<open>A\<close> is in the array
  and not selected by the test; after \<^verbatim>\<open>select(X)\<close> and \<^verbatim>\<open>selectAll()\<close> the element
  \<^verbatim>\<open>X\<close> is selected by the test and not in the array.
\<close>

theorem isSelected_is_class_test:
  "isSelected s d el = (selectClass s \<in> classList d el)
   \<and> isSelected (s\<lparr>selected := els\<rparr>) d el = isSelected s d el
   \<and> (case deselectAll (select ''A'' (exampleList, exampleDoc)) of (s', d') \<Rightarrow>
        ''A'' \<in> set (selected s') \<and> \<not> isSelected s' d' ''A'')
   \<and> (case selectAll (select ''X'' (exampleList, exampleDoc)) of (s', d') \<Rightarrow>
        ''X'' \<notin> set (selected s') \<and> isSelected s' d' ''X'')"
proof -
  have a: "(case deselectAll (select ''A'' (exampleList, exampleDoc)) of (s', d') \<Rightarrow>
        ''A'' \<in> set (selected s') \<and> \<not> isSelected s' d' ''A'')"
    by (simp add: model_defs)
  have b: "(case selectAll (select ''X'' (exampleList, exampleDoc)) of (s', d') \<Rightarrow>
        ''X'' \<notin> set (selected s') \<and> isSelected s' d' ''X'')"
    by (simp add: model_defs)
  show ?thesis using a b by (simp add: isSelected_def Dom_hasClass_def)
qed

section \<open>The cache of the overlay\<close>

lemma assign_keys: "fst ` set (assign key r kvs) = insert key (fst ` set kvs)"
  by (induction key r kvs rule: assign.induct) (simp_all add: insert_commute)

lemma cached_cacheRegion: "cached (cacheRegion d el ov) = insert el (cached ov)"
  by (simp add: cached_def cacheRegion_def Let_def assign_keys)

lemma cached_fold_cacheRegion: "cached (fold (cacheRegion d) els ov) = cached ov \<union> set els"
  by (induction els arbitrary: ov) (auto simp: cached_cacheRegion)

lemma cached_refreshCache:
  "cached (refreshCache instances d ov) =
     cached ov \<union> (\<Union>obj \<in> set instances. set (Dom_getChildren d obj))"
  unfolding refreshCache_def
  by (induction instances arbitrary: ov) (auto simp: Let_def cached_fold_cacheRegion)

lemma onInstance_overlay: "fst (snd (onInstance f p)) = fst (snd p)"
  by (cases p) (simp add: Let_def split: prod.splits)

lemma handleMouseUpEvent_overlay: "fst (snd (handleMouseUpEvent evt p)) = fst (snd p)"
  by (cases p) (simp add: Let_def split: prod.splits del: deselectAll.simps)

lemma handleMouseMoveEvent_cached:
  "cached (fst (snd p)) \<subseteq> cached (fst (snd (handleMouseMoveEvent instances evt p)))"
  by (cases p) (auto simp: Let_def cached_refreshCache split: option.splits)

lemma perform_cached: "cached (fst (snd p)) \<subseteq> cached (fst (snd (perform instances x p)))"
proof (cases x)
  case (MouseDown evt)
  then show ?thesis by (cases p) simp
next
  case (MouseUp evt)
  then show ?thesis by (simp add: handleMouseUpEvent_overlay)
next
  case (MouseMove evt)
  then show ?thesis by (simp add: handleMouseMoveEvent_cached)
qed (simp_all add: onInstance_overlay)

lemma run_cached: "cached (fst (snd p)) \<subseteq> cached (fst (snd (run instances ops p)))"
  unfolding run_def
proof (induction ops arbitrary: p)
  case Nil
  show ?case by simp
next
  case (Cons x xs)
  show ?case
    using perform_cached [of p instances x] Cons.IH [of "perform instances x p"] by auto
qed

text \<open>
  The instance of \<^verbatim>\<open>other\<close> drags twice; then, on the overlay and the document it
  leaves, the instance of \<^verbatim>\<open>list\<close> drags over item \<^verbatim>\<open>X\<close> and selects it.
\<close>

lemma other_instance_example:
  "(case run exampleInstances dragTwice (exampleOther, exampleOverlay, exampleDoc) of
      (s1, ov1, d1) \<Rightarrow>
        (case run exampleInstances dragOverX (exampleList, ov1, d1) of
           (s2, ov2, d2) \<Rightarrow> selected s2 = [''X''] \<and> ''X'' \<notin> set (getChildren s2 d2)))"
  by (simp add: model_defs)

text \<open>
  Item \<^verbatim>\<open>B\<close> is cached in the second drag and then moved to a container that no
  instance is registered for; the next drag still finds it.
\<close>

lemma earlier_drag_example:
  "(case run exampleInstances (secondDrag @ [MouseUp (mouseAt (35, 35) False)]) examplePage of
      (s1, ov1, d1) \<Rightarrow>
        (case run exampleInstances
                [MouseDown (mouseAt (18, 18) False), MouseMove (mouseAt (35, 35) False)]
                (s1, ov1, moveChild ''B'' ''list'' ''trash'' d1) of
           (s2, ov2, d2) \<Rightarrow>
              ''B'' \<in> set (getContains d2 ov2) \<and> ''B'' \<notin> set (Dom_getChildren d2 ''list'')
              \<and> ''B'' \<notin> set (Dom_getChildren d2 ''other'')))"
  by (simp add: model_defs)

text \<open>
  Claim C10: the cache belongs to the one overlay that every instance uses, and
  \<^verbatim>\<open>_cacheRegion\<close> and \<^verbatim>\<open>refreshCache\<close> only add or overwrite entries: every id cached
  before is cached after either of them, and after any sequence of operations and
  events. So \<^verbatim>\<open>getContains()\<close> can return an element of another instance (item \<^verbatim>\<open>X\<close>
  of \<^verbatim>\<open>other\<close>, selected by the instance of \<^verbatim>\<open>list\<close> from a cache that the
  instance of \<^verbatim>\<open>other\<close> filled) and an element cached during an earlier drag (item
  \<^verbatim>\<open>B\<close>, no longer a child of a registered container).
\<close>

theorem cache_only_grows:
  "cached ov \<subseteq> cached (cacheRegion d el ov)
   \<and> cached ov \<subseteq> cached (refreshCache instances d ov)
   \<and> cached (fst (snd p)) \<subseteq> cached (fst (snd (run instances ops p)))
   \<and> (case run exampleInstances dragTwice (exampleOther, exampleOverlay, exampleDoc) of
      (s1, ov1, d1) \<Rightarrow>
        (case run exampleInstances dragOverX (exampleList, ov1, d1) of
           (s2, ov2, d2) \<Rightarrow> selected s2 = [''X''] \<and> ''X'' \<notin> set (getChildren s2 d2)))
   \<and> (case run exampleInstances (secondDrag @ [MouseUp (mouseAt (35, 35) False)]) examplePage of
      (s1, ov1, d1) \<Rightarrow>
        (case run exampleInstances
                [MouseDown (mouseAt (18, 18) False), MouseMove (mouseAt (35, 35) False)]
                (s1, ov1, moveChild ''B'' ''list'' ''trash'' d1) of
           (s2, ov2, d2) \<Rightarrow>
              ''B'' \<in> set (getContains d2 ov2) \<and> ''B'' \<notin> set (Dom_getChildren d2 ''list'')
              \<and> ''B'' \<notin> set (Dom_getChildren d2 ''other'')))"
proof -
  have a: "cached ov \<subseteq> cached (cacheRegion d el ov)"
    unfolding cached_cacheRegion by (rule subset_insertI)
  have b: "cached ov \<subseteq> cached (refreshCache instances d ov)"
    unfolding cached_refreshCache by (rule Un_upper1)
  show ?thesis
    by (intro conjI a b run_cached other_instance_example earlier_drag_example)
qed

text \<open>Claim C10 at an entry for an element \<^verbatim>\<open>Q\<close> that is a child of no container.\<close>

theorem cache_only_grows_witness:
  "''Q'' \<in> cached (cacheRegion exampleDoc ''Q'' exampleOverlay)
   \<and> ''Q'' \<in> cached (refreshCache exampleInstances exampleDoc
                   (cacheRegion exampleDoc ''Q'' exampleOverlay))
   \<and> ''Q'' \<in> cached (fst (snd (run exampleInstances dragTwice
                   (exampleList, cacheRegion exampleDoc ''Q'' exampleOverlay, exampleDoc))))"
proof -
  have q: "''Q'' \<in> cached (cacheRegion exampleDoc ''Q'' exampleOverlay)"
    by (simp add: model_defs)
  show ?thesis
    using q
      cache_only_grows [of "cacheRegion exampleDoc ''Q'' exampleOverlay" exampleDoc "''Q''"
        exampleInstances "(exampleList, cacheRegion exampleDoc ''Q'' exampleOverlay, exampleDoc)"
        dragTwice]
    by auto
qed

end
